theory Spec2Isabelle
  imports Main
begin

section \<open>Values, errors, requests and responses\<close>

text \<open>
  The chain configuration object (\<open>CustomChainConfig\<close> of the host framework). Only
  the chain id is inspected by the adapter; the other fields stand for the remaining chain
  parameters.
\<close>

record CustomChainConfig =
  chainNamespace :: string
  chainId :: string
  rpcTarget :: string

text \<open>Opaque JSON payloads carried by requests and responses.\<close>

datatype jvalue =
    JString string
  | JStrings "string list"
  | JConfig CustomChainConfig
  | JBytes "nat list"
  | JNull

text \<open>
  Thrown values. \<open>ConnectionError\<close>, \<open>DisconnectionError\<close>, \<open>NotConnectedError\<close> and
  \<open>UnsupportedOperationError\<close> are the values built by the factories
  \<open>WalletLoginError.connectionError\<close>, \<open>.disconnectionError\<close>, \<open>.notConnectedError\<close> and
  \<open>.unsupportedOperation\<close>, with the extra message they were given. \<open>PlainError\<close> is a
  JavaScript \<open>Error\<close> (or any other thrown value that is not a \<open>Web3AuthError\<close>) with its
  message. \<open>PreconditionError\<close> is what the base class's requirement checks throw.
  \<open>UnsupportedChainError\<close> is the class named by the error taxonomy of the specification;
  no statement of the source constructs it.
\<close>

datatype error =
    ConnectionError "string option"
  | DisconnectionError "string option"
  | NotConnectedError "string option"
  | UnsupportedOperationError "string option"
  | PreconditionError
  | UnsupportedChainError
  | PlainError "string option"

text \<open>\<open>error instanceof Web3AuthError\<close>\<close>

fun isWeb3AuthError :: "error \<Rightarrow> bool" where
  "isWeb3AuthError (PlainError m) = False"
| "isWeb3AuthError e = True"

text \<open>
  \<open>(error as Error)?.message\<close>. A plain error carries the message it was made with. For a
  \<open>Web3AuthError\<close> the text is composed by the library (its fixed text for the error code
  and the extra message); that composition is outside the repository, so it is the
  parameter \<open>libraryText\<close>.
\<close>

fun message :: "(error \<Rightarrow> string option) \<Rightarrow> error \<Rightarrow> string option" where
  "message libraryText (PlainError m) = m"
| "message libraryText e = libraryText e"

record JRPCRequest =
  "method" :: string
  params :: jvalue

record JRPCResponse =
  result :: "jvalue option"

section \<open>The JSON-RPC engine primitives\<close>

text \<open>
  A middleware receives the request and the response object and either calls \<open>next()\<close>,
  calls \<open>end()\<close>, or fails. The response object is mutated in place, so every outcome
  carries the response as the middleware left it. Handlers are asynchronous black boxes
  with effects of their own: \<open>'w\<close> is the state of the world they act on, threaded through
  every call, so that a handler that is not invoked leaves the world as it was.
\<close>

datatype signal = Next | End | Throw error

type_synonym 'w JRPCMiddleware =
  "JRPCRequest \<Rightarrow> JRPCResponse \<Rightarrow> 'w \<Rightarrow> signal \<times> JRPCResponse \<times> 'w"

type_synonym 'w handler = "JRPCRequest \<Rightarrow> 'w \<Rightarrow> (error + jvalue) \<times> 'w"

text \<open>
  How the body of an asynchronous middleware finishes: it returned the value of \<open>next()\<close>,
  it returned without calling \<open>next\<close>, or it threw.
\<close>

datatype async_end = CalledNext | Returned | Rejected error

type_synonym 'w AsyncJRPCMiddleware =
  "JRPCRequest \<Rightarrow> JRPCResponse \<Rightarrow> 'w \<Rightarrow> async_end \<times> JRPCResponse \<times> 'w"

text \<open>
  Modelled from the spec: \<open>createAsyncMiddleware\<close> and \<open>mergeMiddleware\<close> belong to the
  external JSON-RPC engine package, the "sequential middleware dispatch primitive": a
  stage that claims the request ends the chain, a stage that fails ends it with the error,
  and a stage that calls \<open>next\<close> hands the request to the following stage; when no stage of
  a merged chain claims the request, the merged middleware itself falls through.
\<close>

definition createAsyncMiddleware :: "'w AsyncJRPCMiddleware \<Rightarrow> 'w JRPCMiddleware" where
  "createAsyncMiddleware asyncMiddleware = (\<lambda>req res w.
     case asyncMiddleware req res w of
       (CalledNext, res', w') \<Rightarrow> (Next, res', w')
     | (Returned, res', w') \<Rightarrow> (End, res', w')
     | (Rejected e, res', w') \<Rightarrow> (Throw e, res', w'))"

fun mergeMiddleware :: "'w JRPCMiddleware list \<Rightarrow> 'w JRPCMiddleware" where
  "mergeMiddleware [] req res w = (Next, res, w)"
| "mergeMiddleware (m # ms) req res w =
     (case m req res w of
        (Next, res', w') \<Rightarrow> mergeMiddleware ms req res' w'
      | (End, res', w') \<Rightarrow> (End, res', w')
      | (Throw e, res', w') \<Rightarrow> (Throw e, res', w'))"


section \<open>baseInjectedProvider.ts: the middleware factories\<close>

definition createChainIdMiddleware :: "string \<Rightarrow> 'w JRPCMiddleware" where
  "createChainIdMiddleware chainId' = (\<lambda>req res w.
     if method req = ''solana_chainId''
     then (End, res\<lparr>result := Some (JString chainId')\<rparr>, w)
     else (Next, res, w))"

definition createProviderConfigMiddleware :: "CustomChainConfig \<Rightarrow> 'w JRPCMiddleware" where
  "createProviderConfigMiddleware providerConfig = (\<lambda>req res w.
     if method req = ''solana_provider_config''
     then (End, res\<lparr>result := Some (JConfig providerConfig)\<rparr>, w)
     else (Next, res, w))"

definition createConfigMiddleware :: "CustomChainConfig \<Rightarrow> 'w JRPCMiddleware" where
  "createConfigMiddleware providerConfig =
     (let chainId' = chainId providerConfig
      in mergeMiddleware
           [createChainIdMiddleware chainId', createProviderConfigMiddleware providerConfig])"

definition createGetAccountsMiddleware :: "'w handler option \<Rightarrow> 'w JRPCMiddleware" where
  "createGetAccountsMiddleware getAccounts' = createAsyncMiddleware (\<lambda>request response w.
     if method request \<noteq> ''getAccounts'' then (CalledNext, response, w)
     else case getAccounts' of
       None \<Rightarrow>
         (Rejected (PlainError (Some ''WalletMiddleware - opts.getAccounts not provided'')),
          response, w)
     | Some h \<Rightarrow>
         (case h request w of
            (Inl e, w') \<Rightarrow> (Rejected e, response, w')
          | (Inr accounts, w') \<Rightarrow> (Returned, response\<lparr>result := Some accounts\<rparr>, w')))"

definition createGenericJRPCMiddleware ::
    "string \<Rightarrow> 'w handler option \<Rightarrow> 'w JRPCMiddleware" where
  "createGenericJRPCMiddleware targetMethod handler' = createAsyncMiddleware (\<lambda>request response w.
     if method request \<noteq> targetMethod then (CalledNext, response, w)
     else case handler' of
       None \<Rightarrow>
         (Rejected (PlainError (Some (''WalletMiddleware - '' @ targetMethod @ '' not provided''))),
          response, w)
     | Some h \<Rightarrow>
         (case h request w of
            (Inl e, w') \<Rightarrow> (Rejected e, response, w')
          | (Inr r, w') \<Rightarrow> (Returned, response\<lparr>result := Some r\<rparr>, w')))"

definition createRequestAccountsMiddleware :: "'w handler option \<Rightarrow> 'w JRPCMiddleware" where
  "createRequestAccountsMiddleware requestAccounts' = createAsyncMiddleware (\<lambda>request response w.
     if method request \<noteq> ''requestAccounts'' then (CalledNext, response, w)
     else case requestAccounts' of
       None \<Rightarrow>
         (Rejected (PlainError (Some ''WalletMiddleware - opts.requestAccounts not provided'')),
          response, w)
     | Some h \<Rightarrow>
         (case h request w of
            (Inl e, w') \<Rightarrow> (Rejected e, response, w')
          | (Inr accounts, w') \<Rightarrow> (Returned, response\<lparr>result := Some accounts\<rparr>, w')))"

text \<open>
  \<open>IProviderHandlers\<close>: the handler references handed to \<open>createSolanaMiddleware\<close>. A
  reference may be absent at run time, which the factories test with \<open>!handler\<close>.
\<close>

record 'w IProviderHandlers =
  requestAccounts :: "'w handler option"
  getAccounts :: "'w handler option"
  signTransaction :: "'w handler option"
  signAndSendTransaction :: "'w handler option"
  signAllTransactions :: "'w handler option"
  signMessage :: "'w handler option"
  getPrivateKey :: "'w handler option"
  getSecretKey :: "'w handler option"

definition createSolanaMiddleware :: "'w IProviderHandlers \<Rightarrow> 'w JRPCMiddleware" where
  "createSolanaMiddleware providerHandlers =
     mergeMiddleware
       [createRequestAccountsMiddleware (requestAccounts providerHandlers),
        createGetAccountsMiddleware (getAccounts providerHandlers),
        createGenericJRPCMiddleware ''signTransaction'' (signTransaction providerHandlers),
        createGenericJRPCMiddleware ''signAndSendTransaction''
          (signAndSendTransaction providerHandlers),
        createGenericJRPCMiddleware ''signAllTransactions'' (signAllTransactions providerHandlers),
        createGenericJRPCMiddleware ''signMessage'' (signMessage providerHandlers),
        createGenericJRPCMiddleware ''solanaPrivateKey'' (getPrivateKey providerHandlers),
        createGenericJRPCMiddleware ''private_key'' (getPrivateKey providerHandlers),
        createGenericJRPCMiddleware ''solanaSecretKey'' (getSecretKey providerHandlers)]"

text \<open>
  The bindings of \<open>createSolanaMiddleware\<close> in declaration order, as (method name, handler
  reference) pairs.
\<close>

definition declaredBindings :: "'w IProviderHandlers \<Rightarrow> (string \<times> 'w handler option) list" where
  "declaredBindings providerHandlers =
     [(''requestAccounts'', requestAccounts providerHandlers),
      (''getAccounts'', getAccounts providerHandlers),
      (''signTransaction'', signTransaction providerHandlers),
      (''signAndSendTransaction'', signAndSendTransaction providerHandlers),
      (''signAllTransactions'', signAllTransactions providerHandlers),
      (''signMessage'', signMessage providerHandlers),
      (''solanaPrivateKey'', getPrivateKey providerHandlers),
      (''private_key'', getPrivateKey providerHandlers),
      (''solanaSecretKey'', getSecretKey providerHandlers)]"

section \<open>baseInjectedProvider.ts: BaseInjectedProvider\<close>

text \<open>
  Modelled from the spec: the class \<open>DemonWalletAdapter\<close> (\<open>./demonWalletAdapter\<close>) is the
  "Injected Wallet Capability Interface": \<open>connect()\<close> throws on failure, \<open>publicKey\<close> is
  readable after connect, \<open>connected\<close> is a boolean, and \<open>on\<close>/\<open>off\<close> register and
  unregister a handler for the "disconnect" notification. \<open>disconnectListener\<close> tells
  whether the adapter's \<open>_onDisconnect\<close> is registered on this wallet object.
\<close>

record DemonWalletAdapter =
  network :: string
  connected :: bool
  publicKey :: "string option"
  disconnectListener :: bool

text \<open>
  The provider object: its configuration, its state and the engine behind the provider
  handle it exposes (absent until \<open>setupProvider\<close> has run).
\<close>

record 'w BaseInjectedProvider =
  config_chainConfig :: CustomChainConfig
  state_chainId :: "string option"
  providerEngineProxy :: "'w JRPCMiddleware list option"

text \<open>
  What the collaborators outside the two source files do at one call: the outcomes of the
  wallet's own operations, of the requirement checks and session bookkeeping of the host
  framework's base classes, the message text the library composes for a \<open>Web3AuthError\<close>,
  and the two methods that the provider subclass \<open>DemonInjectedProvider\<close>
  (\<open>./providerHandlers\<close>) supplies to \<open>setupProvider\<close>.
\<close>

record 'w env =
  walletInit :: "string \<Rightarrow> bool \<times> string option"
  walletConnect :: "string \<Rightarrow> error + string option"
  walletDisconnect :: "error option"
  getProviderHandlers :: "DemonWalletAdapter \<Rightarrow> 'w IProviderHandlers"
  getInjectedProviderProxy :: "DemonWalletAdapter \<Rightarrow> 'w JRPCMiddleware option"
  web3AuthMessage :: "error \<Rightarrow> string option"
  baseInit :: "CustomChainConfig option \<Rightarrow> error + CustomChainConfig"
  disconnectSession :: "error option"
  superDisconnect :: "error option"
  checkAddChainRequirements :: "bool \<Rightarrow> error option"
  checkSwitchChainRequirements :: "string \<Rightarrow> bool \<Rightarrow> error option"

text \<open>\<open>new DemonWalletAdapter({ network: cluster })\<close>: a fresh object, no handler registered.\<close>

definition newDemonWalletAdapter :: "'w env \<Rightarrow> string \<Rightarrow> DemonWalletAdapter" where
  "newDemonWalletAdapter env cluster =
     \<lparr>network = cluster, connected = fst (walletInit env cluster),
      publicKey = snd (walletInit env cluster), disconnectListener = False\<rparr>"

text \<open>\<open>wallet.connect()\<close>\<close>

definition wallet_connect :: "'w env \<Rightarrow> DemonWalletAdapter \<Rightarrow> error + DemonWalletAdapter" where
  "wallet_connect env wallet =
     (case walletConnect env (network wallet) of
        Inl e \<Rightarrow> Inl e
      | Inr pk \<Rightarrow> Inr (wallet\<lparr>connected := True, publicKey := pk\<rparr>))"

text \<open>
  The constructor: \<open>{ ...config.chainConfig, chainNamespace: CHAIN_NAMESPACES.SOLANA }\<close>.
\<close>

definition newBaseInjectedProvider :: "CustomChainConfig \<Rightarrow> 'w BaseInjectedProvider" where
  "newBaseInjectedProvider cc =
     \<lparr>config_chainConfig = cc\<lparr>chainNamespace := ''solana''\<rparr>, state_chainId = None,
      providerEngineProxy = None\<rparr>"

text \<open>
  \<open>BaseInjectedProvider.switchChain\<close> (lines 118 to 120), the only \<open>switchChain\<close> of a
  provider in the source: it is the one the adapter's \<open>switchChain\<close> reaches.
\<close>

definition switchChain_base ::
    "'w BaseInjectedProvider \<Rightarrow> string \<Rightarrow> error + 'w BaseInjectedProvider" where
  "switchChain_base this chainId' =
     Inl (UnsupportedOperationError (Some ''Chain switching is not supported by this adapter''))"

definition lookupNetwork :: "'w BaseInjectedProvider \<Rightarrow> 'w BaseInjectedProvider" where
  "lookupNetwork this = this\<lparr>state_chainId := Some (chainId (config_chainConfig this))\<rparr>"

text \<open>
  \<open>setupProvider\<close>: the engine is the list of the middleware pushed, in order. The values
  that the config middleware answers with are those of \<open>this.config.chainConfig\<close> at this
  moment.
\<close>

definition setupProvider ::
    "'w env \<Rightarrow> DemonWalletAdapter \<Rightarrow> 'w BaseInjectedProvider \<Rightarrow> 'w BaseInjectedProvider" where
  "setupProvider env injectedProvider this =
     (let providerHandlers = getProviderHandlers env injectedProvider;
          solanaMiddleware = createSolanaMiddleware providerHandlers;
          configMiddleware = createConfigMiddleware (config_chainConfig this);
          engine = [solanaMiddleware, configMiddleware] @
            (case getInjectedProviderProxy env injectedProvider of
               None \<Rightarrow> []
             | Some injectedProviderProxy \<Rightarrow> [injectedProviderProxy])
      in lookupNetwork (this\<lparr>providerEngineProxy := Some engine\<rparr>))"

section \<open>demonAdapter.ts: DemonAdapter\<close>

datatype ADAPTER_STATUS = NOT_READY | READY | CONNECTING | CONNECTED

text \<open>
  The events the adapter emits, with their payloads. The first five are emitted under the
  names of \<open>ADAPTER_EVENTS\<close>; \<open>EV_LITERAL\<close> is an event emitted under a name written out
  as a string literal, as \<open>init\<close> does with "ERRORED".
\<close>

datatype event =
    EV_READY string
  | EV_CONNECTING string
  | EV_CONNECTED string bool
  | EV_DISCONNECTED
  | EV_ERRORED error
  | EV_LITERAL string error

text \<open>
  The fields of the adapter; \<open>wallet'\<close> is \<open>_wallet\<close>. \<open>chainConfig\<close>, \<open>knownChainConfigs\<close>
  and \<open>rehydrated\<close> are the fields inherited from the base class, and \<open>emitted\<close> lists the
  events emitted so far, oldest first.
\<close>

record 'w DemonAdapter =
  status :: ADAPTER_STATUS
  wallet' :: "DemonWalletAdapter option"
  demonProvider :: "'w BaseInjectedProvider option"
  chainConfig :: "CustomChainConfig option"
  knownChainConfigs :: "string \<rightharpoonup> CustomChainConfig"
  rehydrated :: bool
  emitted :: "event list"

definition newDemonAdapter :: "CustomChainConfig option \<Rightarrow> 'w DemonAdapter" where
  "newDemonAdapter cc =
     \<lparr>status = NOT_READY, wallet' = None, demonProvider = None, chainConfig = cc,
      knownChainConfigs = Map.empty, rehydrated = False, emitted = []\<rparr>"

definition emit :: "event \<Rightarrow> 'w DemonAdapter \<Rightarrow> 'w DemonAdapter" where
  "emit ev this = this\<lparr>emitted := emitted this @ [ev]\<rparr>"

definition isWalletConnected :: "'w DemonAdapter \<Rightarrow> bool" where
  "isWalletConnected this =
     ((case wallet' this of None \<Rightarrow> False | Some w \<Rightarrow> connected w) \<and> status this = CONNECTED)"

definition provider :: "'w DemonAdapter \<Rightarrow> 'w JRPCMiddleware list option" where
  "provider this =
     (case demonProvider this of None \<Rightarrow> None | Some p \<Rightarrow> providerEngineProxy p)"


text \<open>
  Modelled from the spec: \<open>checkConnectionRequirements\<close> of the base class; \<open>connect()\<close>
  "requires current state READY (else fails with a precondition error)".
\<close>

definition checkConnectionRequirements :: "'w DemonAdapter \<Rightarrow> error option" where
  "checkConnectionRequirements this =
     (if status this = READY then None else Some PreconditionError)"

text \<open>Lines 87 to 98 of \<open>connect\<close>: the cluster for the configured chain id.\<close>

definition cluster_of :: "CustomChainConfig option \<Rightarrow> error + string" where
  "cluster_of cc =
     (if map_option chainId cc = Some ''0x1'' then Inr ''mainnet-beta''
      else if map_option chainId cc = Some ''0x2'' then Inr ''devnet''
      else if map_option chainId cc = Some ''0x3'' then Inr ''testnet''
      else Inl (ConnectionError
        (Some (''Invalid chainId, demon doesn'' @ [CHR 0x27] @
               ''t support custom solana networks''))))"

definition connectWithProvider ::
    "'w env \<Rightarrow> DemonWalletAdapter \<Rightarrow> 'w DemonAdapter \<Rightarrow>
     (error + 'w JRPCMiddleware list option) \<times> 'w DemonAdapter" where
  "connectWithProvider env injectedProvider this =
     (case demonProvider this of
        None \<Rightarrow> (Inl (ConnectionError (Some ''No demon provider'')), this)
      | Some p \<Rightarrow>
          (let this1 = this\<lparr>demonProvider := Some (setupProvider env injectedProvider p)\<rparr>;
               this2 = this1\<lparr>status := CONNECTED\<rparr>;
               this3 = emit (EV_CONNECTED ''DEMON'' (rehydrated this2)) this2
           in (Inr (provider this3), this3)))"

text \<open>The \<open>try\<close> block of \<open>connect\<close>; a thrown error comes with the state at the throw.\<close>

definition connect_try ::
    "'w env \<Rightarrow> 'w DemonAdapter \<Rightarrow>
     (error + 'w JRPCMiddleware list option) \<times> 'w DemonAdapter" where
  "connect_try env this =
     (case checkConnectionRequirements this of
        Some e \<Rightarrow> (Inl e, this)
      | None \<Rightarrow>
          (let this1 = emit (EV_CONNECTING ''DEMON'') (this\<lparr>status := CONNECTING\<rparr>)
           in case cluster_of (chainConfig this1) of
                Inl e \<Rightarrow> (Inl e, this1)
              | Inr cluster \<Rightarrow>
                  (let wallet0 = newDemonWalletAdapter env cluster
                   in case (if \<not> connected wallet0
                            then (case wallet_connect env wallet0 of
                                    Inl error \<Rightarrow>
                                      (if isWeb3AuthError error then Inl error
                                       else Inl (ConnectionError (message (web3AuthMessage env) error)))
                                  | Inr w \<Rightarrow> Inr w)
                            else Inr wallet0) of
                        Inl e \<Rightarrow> (Inl e, this1)
                      | Inr wallet \<Rightarrow>
                          (case connectWithProvider env wallet this1 of
                             (Inl e, this2) \<Rightarrow> (Inl e, this2)
                           | (Inr _, this2) \<Rightarrow>
                               (let this3 = this2\<lparr>wallet' := Some wallet\<rparr>
                                in if publicKey wallet = None
                                   then (Inl (ConnectionError None), this3)
                                   else (let this4 = this3\<lparr>wallet' :=
                                               Some (wallet\<lparr>disconnectListener := True\<rparr>)\<rparr>
                                         in (Inr (provider this4), this4)))))))"

definition connect ::
    "'w env \<Rightarrow> 'w DemonAdapter \<Rightarrow>
     (error + 'w JRPCMiddleware list option) \<times> 'w DemonAdapter" where
  "connect env this =
     (case connect_try env this of
        (Inr p, this') \<Rightarrow> (Inr p, this')
      | (Inl error, this') \<Rightarrow>
          (Inl error, emit (EV_ERRORED error) (this'\<lparr>status := READY, rehydrated := False\<rparr>)))"

text \<open>
  \<open>init\<close>. \<open>baseInit\<close> stands for \<open>super.init\<close> and \<open>checkInitializationRequirements\<close>
  of the base class: they fail, or leave the chain configuration the adapter goes on with.
  A failed auto-connect is emitted under the literal name "ERRORED" (line 76), after the
  ERRORED event that \<open>connect\<close> itself emitted.
\<close>

definition init ::
    "'w env \<Rightarrow> bool \<Rightarrow> 'w DemonAdapter \<Rightarrow> (error + unit) \<times> 'w DemonAdapter" where
  "init env autoConnect this =
     (case baseInit env (chainConfig this) of
        Inl e \<Rightarrow> (Inl e, this)
      | Inr cc \<Rightarrow>
          (let this1 = this\<lparr>chainConfig := Some cc\<rparr>;
               this2 = this1\<lparr>demonProvider := Some (newBaseInjectedProvider cc)\<rparr>;
               this3 = emit (EV_READY ''DEMON'') (this2\<lparr>status := READY\<rparr>)
           in if autoConnect
              then (case connect env (this3\<lparr>rehydrated := True\<rparr>) of
                      (Inr _, this4) \<Rightarrow> (Inr (), this4)
                    | (Inl error, this4) \<Rightarrow>
                        (Inr (), emit (EV_LITERAL ''ERRORED'' error) this4))
              else (Inr (), this3)))"

text \<open>
  \<open>super.disconnect()\<close>, the base class's method: it clears the rehydration flag and emits
  DISCONNECTED, the two steps \<open>_onDisconnect\<close> also takes; the environment tells whether
  the call then fails.
\<close>

definition super_disconnect :: "'w env \<Rightarrow> 'w DemonAdapter \<Rightarrow> (error + unit) \<times> 'w DemonAdapter" where
  "super_disconnect env this =
     (let this1 = emit EV_DISCONNECTED (this\<lparr>rehydrated := False\<rparr>)
      in case superDisconnect env of
           Some e \<Rightarrow> (Inl e, this1)
         | None \<Rightarrow> (Inr (), this1))"

text \<open>
  The \<open>try\<close> block of \<open>disconnect\<close>. What \<open>disconnect()\<close> does to the wallet object
  itself is not tracked.
\<close>

definition disconnect_try ::
    "'w env \<Rightarrow> bool \<Rightarrow> 'w DemonAdapter \<Rightarrow> (error + unit) \<times> 'w DemonAdapter" where
  "disconnect_try env cleanup this =
     (case (case wallet' this of None \<Rightarrow> None | Some w \<Rightarrow> walletDisconnect env) of
        Some e \<Rightarrow> (Inl e, this)
      | None \<Rightarrow>
          (let this1 = (if cleanup
                        then this\<lparr>status := NOT_READY, demonProvider := None, wallet' := None\<rparr>
                        else this\<lparr>status := READY\<rparr>)
           in super_disconnect env this1))"

definition disconnect ::
    "'w env \<Rightarrow> bool \<Rightarrow> 'w DemonAdapter \<Rightarrow> (error + unit) \<times> 'w DemonAdapter" where
  "disconnect env cleanup this =
     (case disconnectSession env of
        Some e \<Rightarrow> (Inl e, this)
      | None \<Rightarrow>
          (case disconnect_try env cleanup this of
             (Inr u, this') \<Rightarrow> (Inr u, this')
           | (Inl error, this') \<Rightarrow>
               (Inr (),
                emit (EV_ERRORED (DisconnectionError (message (web3AuthMessage env) error)))
                  this')))"

definition getUserInfo :: "'w DemonAdapter \<Rightarrow> error + unit" where
  "getUserInfo this =
     (if \<not> isWalletConnected this
      then Inl (NotConnectedError (Some ''Not connected with wallet, Please login/connect first''))
      else Inr ())"

text \<open>
  Modelled from the spec: \<open>addChainConfig\<close>, \<open>getChainConfig\<close> and \<open>setAdapterSettings\<close> of
  the base class are its "chain-config storage": a chain is stored under its id, looked up
  by id, and \<open>switchChain\<close> "update[s] the stored ChainConfig".
\<close>

definition addChainConfig :: "CustomChainConfig \<Rightarrow> 'w DemonAdapter \<Rightarrow> 'w DemonAdapter" where
  "addChainConfig cc this = this\<lparr>knownChainConfigs := (knownChainConfigs this)(chainId cc \<mapsto> cc)\<rparr>"

definition getChainConfig :: "'w DemonAdapter \<Rightarrow> string \<Rightarrow> CustomChainConfig option" where
  "getChainConfig this chainId' = knownChainConfigs this chainId'"

definition setAdapterSettings ::
    "CustomChainConfig option \<Rightarrow> 'w DemonAdapter \<Rightarrow> 'w DemonAdapter" where
  "setAdapterSettings cc this = (case cc of None \<Rightarrow> this | Some c \<Rightarrow> this\<lparr>chainConfig := Some c\<rparr>)"

text \<open>
  \<open>addChain\<close>; the provider's own \<open>addChain\<close> records the chain inside the provider
  and touches none of the provider fields kept here.
\<close>

definition addChain ::
    "'w env \<Rightarrow> CustomChainConfig \<Rightarrow> bool \<Rightarrow> 'w DemonAdapter \<Rightarrow> (error + unit) \<times> 'w DemonAdapter" where
  "addChain env cc init' this =
     (case checkAddChainRequirements env init' of
        Some e \<Rightarrow> (Inl e, this)
      | None \<Rightarrow> (Inr (), addChainConfig cc this))"

definition switchChain ::
    "'w env \<Rightarrow> string \<Rightarrow> bool \<Rightarrow> 'w DemonAdapter \<Rightarrow> (error + unit) \<times> 'w DemonAdapter" where
  "switchChain env chainId' init' this =
     (case checkSwitchChainRequirements env chainId' init' of
        Some e \<Rightarrow> (Inl e, this)
      | None \<Rightarrow>
          (case (case demonProvider this of
                   None \<Rightarrow> Inr None
                 | Some p \<Rightarrow>
                     (case switchChain_base p chainId' of
                        Inl e \<Rightarrow> Inl e
                      | Inr p' \<Rightarrow> Inr (Some p'))) of
             Inl e \<Rightarrow> (Inl e, this)
           | Inr p' \<Rightarrow>
               (Inr (),
                setAdapterSettings (getChainConfig this chainId') (this\<lparr>demonProvider := p'\<rparr>))))"

text \<open>\<open>_onDisconnect\<close>, the handler registered for the wallet's "disconnect" notification.\<close>

definition onDisconnect :: "'w DemonAdapter \<Rightarrow> 'w DemonAdapter" where
  "onDisconnect this =
     (case wallet' this of
        None \<Rightarrow> this
      | Some w \<Rightarrow>
          (let this1 = this\<lparr>wallet' := Some (w\<lparr>disconnectListener := False\<rparr>)\<rparr>;
               this2 = this1\<lparr>rehydrated := False\<rparr>;
               this3 = this2\<lparr>status := (if status this2 = CONNECTED then READY else NOT_READY)\<rparr>
           in emit EV_DISCONNECTED this3))"

text \<open>
  The wallet held in \<open>_wallet\<close> fires its "disconnect" notification: the handlers that are
  registered on it at that moment run.
\<close>

definition walletFiresDisconnect :: "'w DemonAdapter \<Rightarrow> 'w DemonAdapter" where
  "walletFiresDisconnect this =
     (case wallet' this of
        None \<Rightarrow> this
      | Some w \<Rightarrow> if disconnectListener w then onDisconnect this else this)"

text \<open>A call made on the adapter from outside, with what the collaborators do during it.\<close>

datatype 'w call =
    Init "'w env" bool
  | Connect "'w env"
  | Disconnect "'w env" bool
  | AddChain "'w env" CustomChainConfig bool
  | SwitchChain "'w env" string bool
  | WalletFiresDisconnect

fun step :: "'w call \<Rightarrow> 'w DemonAdapter \<Rightarrow> 'w DemonAdapter" where
  "step (Init env autoConnect) this = snd (init env autoConnect this)"
| "step (Connect env) this = snd (connect env this)"
| "step (Disconnect env cleanup) this = snd (disconnect env cleanup this)"
| "step (AddChain env cc init') this = snd (addChain env cc init' this)"
| "step (SwitchChain env chainId' init') this = snd (switchChain env chainId' init' this)"
| "step WalletFiresDisconnect this = walletFiresDisconnect this"

fun run :: "'w call list \<Rightarrow> 'w DemonAdapter \<Rightarrow> 'w DemonAdapter" where
  "run [] this = this"
| "run (c # cs) this = run cs (step c this)"

section \<open>Concrete inputs\<close>

text \<open>A handler table in which every reference is absent.\<close>

definition noHandlers :: "nat IProviderHandlers" where
  "noHandlers = \<lparr>requestAccounts = None, getAccounts = None, signTransaction = None,
     signAndSendTransaction = None, signAllTransactions = None, signMessage = None,
     getPrivateKey = None, getSecretKey = None\<rparr>"

text \<open>
  Handlers that count their invocations in the world: one signs, one fails, one returns a
  key whatever the request is.
\<close>

definition signingHandler :: "nat handler" where
  "signingHandler = (\<lambda>req w. (Inr (JBytes [1, 2, 3]), Suc w))"

definition failingHandler :: "nat handler" where
  "failingHandler = (\<lambda>req w. (Inl (PlainError (Some ''User rejected the request'')), Suc w))"

definition keyHandler :: "nat handler" where
  "keyHandler = (\<lambda>req w. (Inr (JString ''key''), Suc w))"

text \<open>Chain configurations for the chain ids "0x1", "0x2" and "0x4".\<close>

definition cfg1 :: CustomChainConfig where
  "cfg1 = \<lparr>chainNamespace = ''solana'', chainId = ''0x1'', rpcTarget = ''https://rpc.example''\<rparr>"


definition cfg4 :: CustomChainConfig where
  "cfg4 = \<lparr>chainNamespace = ''solana'', chainId = ''0x4'', rpcTarget = ''https://rpc.example''\<rparr>"

text \<open>A handler table as a wallet supplies it: every reference present.\<close>

definition accountsHandler :: "nat handler" where
  "accountsHandler = (\<lambda>req w. (Inr (JStrings [''pubkey'']), w))"

definition notSupportedHandler :: "nat handler" where
  "notSupportedHandler = (\<lambda>req w. (Inl (PlainError (Some ''Method not supported'')), w))"

definition walletHandlers :: "nat IProviderHandlers" where
  "walletHandlers = \<lparr>requestAccounts = Some accountsHandler, getAccounts = Some accountsHandler,
     signTransaction = Some signingHandler, signAndSendTransaction = Some signingHandler,
     signAllTransactions = Some signingHandler, signMessage = Some signingHandler,
     getPrivateKey = Some notSupportedHandler, getSecretKey = Some notSupportedHandler\<rparr>"

text \<open>A message text for the errors of the library: a fixed text per class, then the extra message.\<close>

fun libraryText :: "error \<Rightarrow> string option" where
  "libraryText (ConnectionError m) =
     Some (''Failed to connect with wallet. '' @ (case m of None \<Rightarrow> [] | Some x \<Rightarrow> x))"
| "libraryText (DisconnectionError m) =
     Some (''Failed to disconnect from wallet. '' @ (case m of None \<Rightarrow> [] | Some x \<Rightarrow> x))"
| "libraryText (NotConnectedError m) =
     Some (''Wallet is not connected. '' @ (case m of None \<Rightarrow> [] | Some x \<Rightarrow> x))"
| "libraryText (UnsupportedOperationError m) =
     Some (''Unsupported operation. '' @ (case m of None \<Rightarrow> [] | Some x \<Rightarrow> x))"
| "libraryText e = None"

text \<open>
  Collaborators that all succeed: the wallet connects and exposes a public key, and the
  base class accepts every call.
\<close>

definition env0 :: "nat env" where
  "env0 = \<lparr>walletInit = (\<lambda>c. (False, None)), walletConnect = (\<lambda>c. Inr (Some ''pubkey'')),
     walletDisconnect = None, getProviderHandlers = (\<lambda>w. walletHandlers),
     getInjectedProviderProxy = (\<lambda>w. None), web3AuthMessage = libraryText,
     baseInit = (\<lambda>cc. case cc of None \<Rightarrow> Inl PreconditionError | Some c \<Rightarrow> Inr c),
     disconnectSession = None, superDisconnect = None,
     checkAddChainRequirements = (\<lambda>i. None), checkSwitchChainRequirements = (\<lambda>c i. None)\<rparr>"

text \<open>The session bookkeeping of the base class rejects, as it does when nothing is connected.\<close>

definition envNoSession :: "nat env" where
  "envNoSession = env0\<lparr>disconnectSession :=
     Some (DisconnectionError (Some ''Not connected with wallet''))\<rparr>"

text \<open>The wallet fails to detach.\<close>

definition envDetachFails :: "nat env" where
  "envDetachFails = env0\<lparr>walletDisconnect := Some (PlainError (Some ''wallet is locked''))\<rparr>"

text \<open>Adapters after \<open>init\<close>, after \<open>init\<close> and \<open>connect\<close>, and inside \<open>connect\<close>.\<close>

definition readyAdapter :: "nat DemonAdapter" where
  "readyAdapter = run [Init env0 False] (newDemonAdapter (Some cfg1))"

definition connectedAdapter :: "nat DemonAdapter" where
  "connectedAdapter = run [Init env0 False, Connect env0] (newDemonAdapter (Some cfg1))"

definition readyAdapter4 :: "nat DemonAdapter" where
  "readyAdapter4 = run [Init env0 False] (newDemonAdapter (Some cfg4))"

definition connectingAdapter :: "nat DemonAdapter" where
  "connectingAdapter = emit (EV_CONNECTING ''DEMON'') (readyAdapter\<lparr>status := CONNECTING\<rparr>)"

definition connectedWallet :: DemonWalletAdapter where
  "connectedWallet = \<lparr>network = ''mainnet-beta'', connected = True, publicKey = Some ''pubkey'',
     disconnectListener = False\<rparr>"




section \<open>Facts about the middleware factories\<close>

lemma generic_other:
  "method req \<noteq> t \<Longrightarrow> createGenericJRPCMiddleware t h req res w = (Next, res, w)"
  by (simp add: createGenericJRPCMiddleware_def createAsyncMiddleware_def)

lemma generic_present:
  "createGenericJRPCMiddleware (method req) (Some h) req res w =
     (case h req w of
        (Inl e, w') \<Rightarrow> (Throw e, res, w')
      | (Inr v, w') \<Rightarrow> (End, res\<lparr>result := Some v\<rparr>, w'))"
  by (simp add: createGenericJRPCMiddleware_def createAsyncMiddleware_def
      split: prod.splits sum.splits)

lemma generic_absent:
  "createGenericJRPCMiddleware (method req) None req res w =
     (Throw (PlainError (Some (''WalletMiddleware - '' @ method req @ '' not provided''))), res, w)"
  by (simp add: createGenericJRPCMiddleware_def createAsyncMiddleware_def)

lemma requestAccounts_other:
  "method req \<noteq> ''requestAccounts'' \<Longrightarrow> createRequestAccountsMiddleware h req res w = (Next, res, w)"
  by (simp add: createRequestAccountsMiddleware_def createAsyncMiddleware_def)

lemma requestAccounts_present:
  "method req = ''requestAccounts'' \<Longrightarrow>
   createRequestAccountsMiddleware (Some h) req res w =
     (case h req w of
        (Inl e, w') \<Rightarrow> (Throw e, res, w')
      | (Inr v, w') \<Rightarrow> (End, res\<lparr>result := Some v\<rparr>, w'))"
  by (simp add: createRequestAccountsMiddleware_def createAsyncMiddleware_def
      split: prod.splits sum.splits)

lemma requestAccounts_absent:
  "method req = ''requestAccounts'' \<Longrightarrow>
   createRequestAccountsMiddleware None req res w =
     (Throw (PlainError (Some ''WalletMiddleware - opts.requestAccounts not provided'')), res, w)"
  by (simp add: createRequestAccountsMiddleware_def createAsyncMiddleware_def)

lemma getAccounts_other:
  "method req \<noteq> ''getAccounts'' \<Longrightarrow> createGetAccountsMiddleware h req res w = (Next, res, w)"
  by (simp add: createGetAccountsMiddleware_def createAsyncMiddleware_def)

lemma getAccounts_present:
  "method req = ''getAccounts'' \<Longrightarrow>
   createGetAccountsMiddleware (Some h) req res w =
     (case h req w of
        (Inl e, w') \<Rightarrow> (Throw e, res, w')
      | (Inr v, w') \<Rightarrow> (End, res\<lparr>result := Some v\<rparr>, w'))"
  by (simp add: createGetAccountsMiddleware_def createAsyncMiddleware_def
      split: prod.splits sum.splits)

lemma getAccounts_absent:
  "method req = ''getAccounts'' \<Longrightarrow>
   createGetAccountsMiddleware None req res w =
     (Throw (PlainError (Some ''WalletMiddleware - opts.getAccounts not provided'')), res, w)"
  by (simp add: createGetAccountsMiddleware_def createAsyncMiddleware_def)

lemma merge_generic_present:
  "mergeMiddleware (createGenericJRPCMiddleware (method req) (Some h) # ms) req res w =
     (case h req w of
        (Inl e, w') \<Rightarrow> (Throw e, res, w')
      | (Inr v, w') \<Rightarrow> (End, res\<lparr>result := Some v\<rparr>, w'))"
  by (simp add: createGenericJRPCMiddleware_def createAsyncMiddleware_def
      split: prod.splits sum.splits)

lemma merge_requestAccounts_present:
  "method req = ''requestAccounts'' \<Longrightarrow>
   mergeMiddleware (createRequestAccountsMiddleware (Some h) # ms) req res w =
     (case h req w of
        (Inl e, w') \<Rightarrow> (Throw e, res, w')
      | (Inr v, w') \<Rightarrow> (End, res\<lparr>result := Some v\<rparr>, w'))"
  by (simp add: createRequestAccountsMiddleware_def createAsyncMiddleware_def
      split: prod.splits sum.splits)

lemma merge_getAccounts_present:
  "method req = ''getAccounts'' \<Longrightarrow>
   mergeMiddleware (createGetAccountsMiddleware (Some h) # ms) req res w =
     (case h req w of
        (Inl e, w') \<Rightarrow> (Throw e, res, w')
      | (Inr v, w') \<Rightarrow> (End, res\<lparr>result := Some v\<rparr>, w'))"
  by (simp add: createGetAccountsMiddleware_def createAsyncMiddleware_def
      split: prod.splits sum.splits)

lemma merge_generic_prefix:
  "\<forall>b \<in> set pre. fst b \<noteq> method req \<Longrightarrow>
   mergeMiddleware (map (\<lambda>b. createGenericJRPCMiddleware (fst b) (snd b)) pre @ ms) req res w =
   mergeMiddleware ms req res w"
  by (induction pre) (auto simp: generic_other)

lemma merge_generic_first:
  assumes "\<forall>b \<in> set pre. fst b \<noteq> method req"
  shows "mergeMiddleware (map (\<lambda>b. createGenericJRPCMiddleware (fst b) (snd b))
            (pre @ (method req, Some h) # post)) req res w =
     (case h req w of
        (Inl e, w') \<Rightarrow> (Throw e, res, w')
      | (Inr v, w') \<Rightarrow> (End, res\<lparr>result := Some v\<rparr>, w'))"
proof -
  have "mergeMiddleware (map (\<lambda>b. createGenericJRPCMiddleware (fst b) (snd b))
            (pre @ (method req, Some h) # post)) req res w =
        mergeMiddleware (createGenericJRPCMiddleware (method req) (Some h) #
            map (\<lambda>b. createGenericJRPCMiddleware (fst b) (snd b)) post) req res w"
    using assms by (simp add: merge_generic_prefix)
  then show ?thesis by (simp only: merge_generic_present)
qed


lemma solana_first:
  assumes "find (\<lambda>b. fst b = method req) (declaredBindings ph) = Some (n, Some h)"
  shows "createSolanaMiddleware ph req res w =
     (case h req w of
        (Inl e, w') \<Rightarrow> (Throw e, res, w')
      | (Inr v, w') \<Rightarrow> (End, res\<lparr>result := Some v\<rparr>, w'))"
proof -
  let ?out = "case h req w of
        (Inl e, w') \<Rightarrow> (Throw e, res, w')
      | (Inr v, w') \<Rightarrow> (End, res\<lparr>result := Some v\<rparr>, w')"
  note g = merge_generic_present [of req h _ res w]
  note r = merge_requestAccounts_present [of req h _ res w]
  note a = merge_getAccounts_present [of req h _ res w]
  from assms consider
      "method req = ''requestAccounts''" "requestAccounts ph = Some h"
    | "method req = ''getAccounts''" "getAccounts ph = Some h"
    | "method req = ''signTransaction''" "signTransaction ph = Some h"
    | "method req = ''signAndSendTransaction''" "signAndSendTransaction ph = Some h"
    | "method req = ''signAllTransactions''" "signAllTransactions ph = Some h"
    | "method req = ''signMessage''" "signMessage ph = Some h"
    | "method req = ''solanaPrivateKey''" "getPrivateKey ph = Some h"
    | "method req = ''private_key''" "getPrivateKey ph = Some h"
    | "method req = ''solanaSecretKey''" "getSecretKey ph = Some h"
    by (auto simp: declaredBindings_def split: if_splits)
  then show ?thesis
  proof cases
    case 1
    then show ?thesis unfolding createSolanaMiddleware_def using r by simp
  next
    case 2
    then show ?thesis unfolding createSolanaMiddleware_def
      using a by (simp add: requestAccounts_other)
  next
    case 3
    then show ?thesis unfolding createSolanaMiddleware_def
      using g by (simp add: requestAccounts_other getAccounts_other generic_other)
  next
    case 4
    then show ?thesis unfolding createSolanaMiddleware_def
      using g by (simp add: requestAccounts_other getAccounts_other generic_other)
  next
    case 5
    then show ?thesis unfolding createSolanaMiddleware_def
      using g by (simp add: requestAccounts_other getAccounts_other generic_other)
  next
    case 6
    then show ?thesis unfolding createSolanaMiddleware_def
      using g by (simp add: requestAccounts_other getAccounts_other generic_other)
  next
    case 7
    then show ?thesis unfolding createSolanaMiddleware_def
      using g by (simp add: requestAccounts_other getAccounts_other generic_other)
  next
    case 8
    then show ?thesis unfolding createSolanaMiddleware_def
      using g by (simp add: requestAccounts_other getAccounts_other generic_other)
  next
    case 9
    then show ?thesis unfolding createSolanaMiddleware_def
      using g by (simp add: requestAccounts_other getAccounts_other generic_other)
  qed
qed


lemma solana_unbound:
  assumes "method req \<notin> {''requestAccounts'', ''getAccounts'', ''signTransaction'',
     ''signAndSendTransaction'', ''signAllTransactions'', ''signMessage'', ''solanaPrivateKey'',
     ''private_key'', ''solanaSecretKey''}"
  shows "createSolanaMiddleware ph req res w = (Next, res, w)"
  using assms
  by (simp add: createSolanaMiddleware_def requestAccounts_other getAccounts_other generic_other)

lemma config_unbound:
  assumes "method req \<noteq> ''solana_chainId''" "method req \<noteq> ''solana_provider_config''"
  shows "createConfigMiddleware cfg req res w = (Next, res, w)"
  using assms
  by (simp add: createConfigMiddleware_def createChainIdMiddleware_def
      createProviderConfigMiddleware_def)




section \<open>The method router\<close>

text \<open>
  C7. A request whose method is the name of a declared binding is handled by the first
  such binding, in declaration order: its handler is awaited once with the request, the
  value it returns becomes \<open>response.result\<close> and the chain ends, and when it throws the
  chain ends with its error. The outcome and the world are those of that single handler
  call, so no later binding is consulted. This holds for the chain that
  \<open>createSolanaMiddleware\<close> builds and for every chain of generic bindings, also when a
  later binding carries the same method name.
\<close>

theorem first_matching_binding_handles_request:
  "(find (\<lambda>b. fst b = method req) (declaredBindings ph) = Some (n, Some h) \<longrightarrow>
      createSolanaMiddleware ph req res w =
        (case h req w of
           (Inl e, w') \<Rightarrow> (Throw e, res, w')
         | (Inr v, w') \<Rightarrow> (End, res\<lparr>result := Some v\<rparr>, w')))
   \<and> ((\<forall>b \<in> set pre. fst b \<noteq> method req) \<longrightarrow>
      mergeMiddleware (map (\<lambda>b. createGenericJRPCMiddleware (fst b) (snd b))
          (pre @ (method req, Some h) # post)) req res w =
        (case h req w of
           (Inl e, w') \<Rightarrow> (Throw e, res, w')
         | (Inr v, w') \<Rightarrow> (End, res\<lparr>result := Some v\<rparr>, w')))"
  using solana_first [of req ph n h res w] merge_generic_first [of pre req h post res w]
  by blast

theorem first_matching_binding_handles_request_witness:
  "find (\<lambda>b. fst b = method \<lparr>method = ''signMessage'', params = JBytes [7]\<rparr>)
      (declaredBindings (noHandlers\<lparr>signMessage := Some signingHandler\<rparr>))
     = Some (''signMessage'', Some signingHandler)
   \<and> createSolanaMiddleware (noHandlers\<lparr>signMessage := Some signingHandler\<rparr>)
       \<lparr>method = ''signMessage'', params = JBytes [7]\<rparr> \<lparr>result = None\<rparr> 0
     = (End, \<lparr>result = Some (JBytes [1, 2, 3])\<rparr>, 1)
   \<and> fst (''getAccounts'', Some keyHandler)
       \<noteq> method \<lparr>method = ''signMessage'', params = JBytes [7]\<rparr>
   \<and> mergeMiddleware (map (\<lambda>b. createGenericJRPCMiddleware (fst b) (snd b))
         ([(''getAccounts'', Some keyHandler)]
          @ (method \<lparr>method = ''signMessage'', params = JBytes [7]\<rparr>, Some failingHandler)
          # [(''signMessage'', Some signingHandler)]))
       \<lparr>method = ''signMessage'', params = JBytes [7]\<rparr> \<lparr>result = None\<rparr> 0
     = (Throw (PlainError (Some ''User rejected the request'')), \<lparr>result = None\<rparr>, 1)"
proof -
  let ?req = "\<lparr>method = ''signMessage'', params = JBytes [7]\<rparr>"
  let ?ph = "noHandlers\<lparr>signMessage := Some signingHandler\<rparr>"
  have f: "find (\<lambda>b. fst b = method ?req) (declaredBindings ?ph)
      = Some (''signMessage'', Some signingHandler)"
    by (simp add: declaredBindings_def noHandlers_def)
  have p: "\<forall>b \<in> set [(''getAccounts'', Some keyHandler)]. fst b \<noteq> method ?req"
    by simp
  from first_matching_binding_handles_request
    [of ?req ?ph "''signMessage''" signingHandler "\<lparr>result = None\<rparr>" 0 "[]" "[]"] f
  have a: "createSolanaMiddleware ?ph ?req \<lparr>result = None\<rparr> 0
      = (End, \<lparr>result = Some (JBytes [1, 2, 3])\<rparr>, 1)"
    by (simp add: signingHandler_def)
  from first_matching_binding_handles_request
    [of ?req ?ph "''none''" failingHandler "\<lparr>result = None\<rparr>" 0
        "[(''getAccounts'', Some keyHandler)]" "[(''signMessage'', Some signingHandler)]"] p
  have b: "mergeMiddleware (map (\<lambda>b. createGenericJRPCMiddleware (fst b) (snd b))
         ([(''getAccounts'', Some keyHandler)] @ (method ?req, Some failingHandler)
          # [(''signMessage'', Some signingHandler)])) ?req \<lparr>result = None\<rparr> 0
     = (Throw (PlainError (Some ''User rejected the request'')), \<lparr>result = None\<rparr>, 1)"
    by (simp add: failingHandler_def)
  have q: "fst (''getAccounts'', Some keyHandler) \<noteq> method ?req"
    by simp
  from f a q b show ?thesis by blast
qed

text \<open>
  C8. A request whose method is none of the bound names (the nine business methods,
  \<open>solana_chainId\<close> and \<open>solana_provider_config\<close>) falls through both stages with the
  response and the world untouched; no error is raised.
\<close>

theorem unbound_method_falls_through:
  assumes "method req \<notin> {''requestAccounts'', ''getAccounts'', ''signTransaction'',
     ''signAndSendTransaction'', ''signAllTransactions'', ''signMessage'', ''solanaPrivateKey'',
     ''private_key'', ''solanaSecretKey'', ''solana_chainId'', ''solana_provider_config''}"
  shows "createSolanaMiddleware ph req res w = (Next, res, w) \<and>
         createConfigMiddleware cfg req res w = (Next, res, w) \<and>
         mergeMiddleware [createSolanaMiddleware ph, createConfigMiddleware cfg] req res w
           = (Next, res, w)"
proof -
  have s: "createSolanaMiddleware ph req res w = (Next, res, w)"
    using assms by (intro solana_unbound) simp
  have c: "createConfigMiddleware cfg req res w = (Next, res, w)"
    using assms by (intro config_unbound) simp_all
  show ?thesis using s c by simp
qed

theorem unbound_method_falls_through_witness:
  "method \<lparr>method = ''eth_accounts'', params = JNull\<rparr> \<notin> {''requestAccounts'', ''getAccounts'',
     ''signTransaction'', ''signAndSendTransaction'', ''signAllTransactions'', ''signMessage'',
     ''solanaPrivateKey'', ''private_key'', ''solanaSecretKey'', ''solana_chainId'',
     ''solana_provider_config''}
   \<and> mergeMiddleware
        [createSolanaMiddleware (noHandlers\<lparr>signMessage := Some signingHandler\<rparr>),
         createConfigMiddleware
           \<lparr>chainNamespace = ''solana'', chainId = ''0x1'', rpcTarget = ''https://rpc.example''\<rparr>]
        \<lparr>method = ''eth_accounts'', params = JNull\<rparr> \<lparr>result = Some JNull\<rparr> 0
      = (Next, \<lparr>result = Some JNull\<rparr>, 0)"
proof -
  let ?req = "\<lparr>method = ''eth_accounts'', params = JNull\<rparr>"
  have h: "method ?req \<notin> {''requestAccounts'', ''getAccounts'',
     ''signTransaction'', ''signAndSendTransaction'', ''signAllTransactions'', ''signMessage'',
     ''solanaPrivateKey'', ''private_key'', ''solanaSecretKey'', ''solana_chainId'',
     ''solana_provider_config''}"
    by simp
  from unbound_method_falls_through [OF h, of "noHandlers\<lparr>signMessage := Some signingHandler\<rparr>"
      "\<lparr>result = Some JNull\<rparr>" 0
      "\<lparr>chainNamespace = ''solana'', chainId = ''0x1'', rpcTarget = ''https://rpc.example''\<rparr>"] h
  show ?thesis by blast
qed

text \<open>
  C9. When the handler reference of a declared binding is absent, a request with that
  method name fails with the error "WalletMiddleware - ... not provided", whose message
  names the method (after "opts." for \<open>requestAccounts\<close> and \<open>getAccounts\<close>); the chain
  neither falls through nor invokes any handler.
\<close>

theorem absent_handler_not_provided:
  assumes "(method req, None) \<in> set (declaredBindings ph)"
  shows "createSolanaMiddleware ph req res w =
     (Throw (PlainError (Some (''WalletMiddleware - '' @
        (if method req \<in> {''requestAccounts'', ''getAccounts''} then ''opts.'' else [])
        @ method req @ '' not provided''))), res, w)"
proof -
  from assms consider
      "method req = ''requestAccounts''" "requestAccounts ph = None"
    | "method req = ''getAccounts''" "getAccounts ph = None"
    | "method req = ''signTransaction''" "signTransaction ph = None"
    | "method req = ''signAndSendTransaction''" "signAndSendTransaction ph = None"
    | "method req = ''signAllTransactions''" "signAllTransactions ph = None"
    | "method req = ''signMessage''" "signMessage ph = None"
    | "method req = ''solanaPrivateKey''" "getPrivateKey ph = None"
    | "method req = ''private_key''" "getPrivateKey ph = None"
    | "method req = ''solanaSecretKey''" "getSecretKey ph = None"
    by (auto simp: declaredBindings_def)
  then show ?thesis
  proof cases
    case 1
    then show ?thesis unfolding createSolanaMiddleware_def
      by (simp add: requestAccounts_absent)
  next
    case 2
    then show ?thesis unfolding createSolanaMiddleware_def
      by (simp add: requestAccounts_other getAccounts_absent)
  next
    case 3
    then show ?thesis unfolding createSolanaMiddleware_def
      using generic_absent [of req res w]
      by (simp add: requestAccounts_other getAccounts_other generic_other)
  next
    case 4
    then show ?thesis unfolding createSolanaMiddleware_def
      using generic_absent [of req res w]
      by (simp add: requestAccounts_other getAccounts_other generic_other)
  next
    case 5
    then show ?thesis unfolding createSolanaMiddleware_def
      using generic_absent [of req res w]
      by (simp add: requestAccounts_other getAccounts_other generic_other)
  next
    case 6
    then show ?thesis unfolding createSolanaMiddleware_def
      using generic_absent [of req res w]
      by (simp add: requestAccounts_other getAccounts_other generic_other)
  next
    case 7
    then show ?thesis unfolding createSolanaMiddleware_def
      using generic_absent [of req res w]
      by (simp add: requestAccounts_other getAccounts_other generic_other)
  next
    case 8
    then show ?thesis unfolding createSolanaMiddleware_def
      using generic_absent [of req res w]
      by (simp add: requestAccounts_other getAccounts_other generic_other)
  next
    case 9
    then show ?thesis unfolding createSolanaMiddleware_def
      using generic_absent [of req res w]
      by (simp add: requestAccounts_other getAccounts_other generic_other)
  qed
qed

theorem absent_handler_not_provided_witness:
  "(''private_key'', None) \<in> set (declaredBindings noHandlers) \<and>
   createSolanaMiddleware noHandlers \<lparr>method = ''private_key'', params = JNull\<rparr>
       \<lparr>result = None\<rparr> 0 =
     (Throw (PlainError (Some ''WalletMiddleware - private_key not provided'')),
      \<lparr>result = None\<rparr>, 0)"
proof -
  have h: "(method \<lparr>method = ''private_key'', params = JNull\<rparr>, None)
      \<in> set (declaredBindings noHandlers)"
    by (simp add: declaredBindings_def noHandlers_def)
  show ?thesis using h absent_handler_not_provided [OF h, of "\<lparr>result = None\<rparr>" 0] by simp
qed

text \<open>
  C10, as stated, fails: with the \<open>getPrivateKey\<close> reference absent, the two method names
  fail with different errors, each message naming the method that was dispatched.
\<close>

theorem private_key_aliases_fail_differently:
  "createSolanaMiddleware noHandlers \<lparr>method = ''solanaPrivateKey'', params = JNull\<rparr>
       \<lparr>result = None\<rparr> 0 \<noteq>
   createSolanaMiddleware noHandlers \<lparr>method = ''private_key'', params = JNull\<rparr>
       \<lparr>result = None\<rparr> 0"
  by (simp add: createSolanaMiddleware_def noHandlers_def createRequestAccountsMiddleware_def
      createGetAccountsMiddleware_def createGenericJRPCMiddleware_def createAsyncMiddleware_def)

text \<open>
  C10, amended. Both \<open>solanaPrivateKey\<close> and \<open>private_key\<close> are served by the one
  \<open>getPrivateKey\<close> reference, each passing the request it received: when the handler
  returns the same outcome for the two requests the two dispatches agree, and when the
  reference is absent each fails with a "not provided" error naming its own method.
\<close>

theorem private_key_aliases_share_handler:
  "createSolanaMiddleware ph (req\<lparr>method := ''solanaPrivateKey''\<rparr>) res w =
     (case getPrivateKey ph of
        None \<Rightarrow>
          (Throw (PlainError (Some ''WalletMiddleware - solanaPrivateKey not provided'')), res, w)
      | Some h \<Rightarrow>
          (case h (req\<lparr>method := ''solanaPrivateKey''\<rparr>) w of
             (Inl e, w') \<Rightarrow> (Throw e, res, w')
           | (Inr v, w') \<Rightarrow> (End, res\<lparr>result := Some v\<rparr>, w')))
   \<and> createSolanaMiddleware ph (req\<lparr>method := ''private_key''\<rparr>) res w =
     (case getPrivateKey ph of
        None \<Rightarrow>
          (Throw (PlainError (Some ''WalletMiddleware - private_key not provided'')), res, w)
      | Some h \<Rightarrow>
          (case h (req\<lparr>method := ''private_key''\<rparr>) w of
             (Inl e, w') \<Rightarrow> (Throw e, res, w')
           | (Inr v, w') \<Rightarrow> (End, res\<lparr>result := Some v\<rparr>, w')))
   \<and> (getPrivateKey ph = Some h \<and>
        h (req\<lparr>method := ''solanaPrivateKey''\<rparr>) w = h (req\<lparr>method := ''private_key''\<rparr>) w \<longrightarrow>
      createSolanaMiddleware ph (req\<lparr>method := ''solanaPrivateKey''\<rparr>) res w =
      createSolanaMiddleware ph (req\<lparr>method := ''private_key''\<rparr>) res w)"
proof -
  let ?a = "req\<lparr>method := ''solanaPrivateKey''\<rparr>" and ?b = "req\<lparr>method := ''private_key''\<rparr>"
  have a: "createSolanaMiddleware ph ?a res w =
     (case getPrivateKey ph of
        None \<Rightarrow>
          (Throw (PlainError (Some ''WalletMiddleware - solanaPrivateKey not provided'')), res, w)
      | Some h \<Rightarrow>
          (case h ?a w of
             (Inl e, w') \<Rightarrow> (Throw e, res, w')
           | (Inr v, w') \<Rightarrow> (End, res\<lparr>result := Some v\<rparr>, w')))"
  proof (cases "getPrivateKey ph")
    case None
    with generic_absent [of ?a res w] show ?thesis
      by (simp add: createSolanaMiddleware_def requestAccounts_other getAccounts_other
          generic_other)
  next
    case (Some k)
    then have "find (\<lambda>b. fst b = method ?a) (declaredBindings ph) = Some (''solanaPrivateKey'', Some k)"
      by (simp add: declaredBindings_def)
    from solana_first [OF this] Some show ?thesis by simp
  qed
  have b: "createSolanaMiddleware ph ?b res w =
     (case getPrivateKey ph of
        None \<Rightarrow>
          (Throw (PlainError (Some ''WalletMiddleware - private_key not provided'')), res, w)
      | Some h \<Rightarrow>
          (case h ?b w of
             (Inl e, w') \<Rightarrow> (Throw e, res, w')
           | (Inr v, w') \<Rightarrow> (End, res\<lparr>result := Some v\<rparr>, w')))"
  proof (cases "getPrivateKey ph")
    case None
    with generic_absent [of ?b res w] show ?thesis
      by (simp add: createSolanaMiddleware_def requestAccounts_other getAccounts_other
          generic_other)
  next
    case (Some k)
    then have "find (\<lambda>b. fst b = method ?b) (declaredBindings ph) = Some (''private_key'', Some k)"
      by (simp add: declaredBindings_def)
    from solana_first [OF this] Some show ?thesis by simp
  qed
  have c: "getPrivateKey ph = Some h \<and> h ?a w = h ?b w \<longrightarrow>
      createSolanaMiddleware ph ?a res w = createSolanaMiddleware ph ?b res w"
    using a b by simp
  from a b c show ?thesis by blast
qed

theorem private_key_aliases_share_handler_witness:
  "getPrivateKey (noHandlers\<lparr>getPrivateKey := Some keyHandler\<rparr>) = Some keyHandler
   \<and> keyHandler (\<lparr>method = ''x'', params = JNull\<rparr>\<lparr>method := ''solanaPrivateKey''\<rparr>) 0
     = keyHandler (\<lparr>method = ''x'', params = JNull\<rparr>\<lparr>method := ''private_key''\<rparr>) 0
   \<and> createSolanaMiddleware (noHandlers\<lparr>getPrivateKey := Some keyHandler\<rparr>)
        (\<lparr>method = ''x'', params = JNull\<rparr>\<lparr>method := ''solanaPrivateKey''\<rparr>) \<lparr>result = None\<rparr> 0
     = createSolanaMiddleware (noHandlers\<lparr>getPrivateKey := Some keyHandler\<rparr>)
        (\<lparr>method = ''x'', params = JNull\<rparr>\<lparr>method := ''private_key''\<rparr>) \<lparr>result = None\<rparr> 0
   \<and> createSolanaMiddleware (noHandlers\<lparr>getPrivateKey := Some keyHandler\<rparr>)
        (\<lparr>method = ''x'', params = JNull\<rparr>\<lparr>method := ''private_key''\<rparr>) \<lparr>result = None\<rparr> 0
     = (End, \<lparr>result = Some (JString ''key'')\<rparr>, 1)"
proof -
  let ?ph = "noHandlers\<lparr>getPrivateKey := Some keyHandler\<rparr>"
  let ?r = "\<lparr>method = ''x'', params = JNull\<rparr>"
  have g: "getPrivateKey ?ph = Some keyHandler"
    by (simp add: noHandlers_def)
  have k: "keyHandler (?r\<lparr>method := ''solanaPrivateKey''\<rparr>) 0
      = keyHandler (?r\<lparr>method := ''private_key''\<rparr>) 0"
    by (simp add: keyHandler_def)
  note t = private_key_aliases_share_handler [of ?ph ?r "\<lparr>result = None\<rparr>" 0 keyHandler]
  from t g k have e: "createSolanaMiddleware ?ph (?r\<lparr>method := ''solanaPrivateKey''\<rparr>)
        \<lparr>result = None\<rparr> 0
      = createSolanaMiddleware ?ph (?r\<lparr>method := ''private_key''\<rparr>) \<lparr>result = None\<rparr> 0"
    by blast
  from t g have v: "createSolanaMiddleware ?ph (?r\<lparr>method := ''private_key''\<rparr>)
        \<lparr>result = None\<rparr> 0 = (End, \<lparr>result = Some (JString ''key'')\<rparr>, 1)"
    by (simp add: keyHandler_def)
  from g k e v show ?thesis by blast
qed

section \<open>Facts about the adapter\<close>

lemma readyAdapter_fields:
  "status readyAdapter = READY" "wallet' readyAdapter = None"
  "chainConfig readyAdapter = Some cfg1" "rehydrated readyAdapter = False"
  "emitted readyAdapter = [EV_READY ''DEMON'']"
  "demonProvider readyAdapter = Some (newBaseInjectedProvider cfg1)"
  by (simp_all add: readyAdapter_def init_def env0_def newDemonAdapter_def emit_def Let_def)

lemma connectedAdapter_eq: "connectedAdapter = snd (connect env0 readyAdapter)"
  by (simp add: connectedAdapter_def readyAdapter_def)

lemma connectedAdapter_fields:
  "status connectedAdapter = CONNECTED"
  "wallet' connectedAdapter = Some \<lparr>network = ''mainnet-beta'', connected = True,
      publicKey = Some ''pubkey'', disconnectListener = True\<rparr>"
  "chainConfig connectedAdapter = Some cfg1"
  "emitted connectedAdapter = [EV_READY ''DEMON'', EV_CONNECTING ''DEMON'', EV_CONNECTED ''DEMON'' False]"
  "demonProvider connectedAdapter \<noteq> None"
  unfolding connectedAdapter_eq
  by (simp_all add: readyAdapter_fields connect_def connect_try_def connectWithProvider_def
      checkConnectionRequirements_def cluster_of_def newDemonWalletAdapter_def wallet_connect_def
      emit_def Let_def env0_def cfg1_def provider_def)


lemma connect_try_Inr:
  assumes "connect_try env a = (Inr p, a')"
  shows "status a' = CONNECTED \<and> (\<exists>w. wallet' a' = Some w \<and> disconnectListener w)
     \<and> demonProvider a' \<noteq> None"
  using assms
  by (auto simp: connect_try_def connectWithProvider_def Let_def emit_def
      split: option.splits sum.splits if_splits prod.splits)

lemma connect_Inr:
  assumes "connect env a = (Inr p, a')"
  shows "status a' = CONNECTED \<and> (\<exists>w. wallet' a' = Some w \<and> disconnectListener w)
     \<and> demonProvider a' \<noteq> None"
  using assms connect_try_Inr [of env a]
  by (auto simp: connect_def split: prod.splits sum.splits)

lemma connect_Inl:
  assumes "connect env a = (Inl e, a')"
  shows "status a' = READY"
  using assms
  by (auto simp: connect_def emit_def split: prod.splits sum.splits)

lemma connect_keeps:
  "status (snd (connect env a)) = CONNECTED \<longrightarrow>
     (\<exists>w. wallet' (snd (connect env a)) = Some w \<and> disconnectListener w)
     \<and> demonProvider (snd (connect env a)) \<noteq> None"
proof (cases "connect env a")
  case (Pair r a')
  then show ?thesis using connect_Inr [of env a _ a'] connect_Inl [of env a _ a']
    by (cases r) auto
qed

lemma init_keeps:
  assumes "status a = CONNECTED \<longrightarrow>
     (\<exists>w. wallet' a = Some w \<and> disconnectListener w) \<and> demonProvider a \<noteq> None"
  shows "status (snd (init env ac a)) = CONNECTED \<longrightarrow>
     (\<exists>w. wallet' (snd (init env ac a)) = Some w \<and> disconnectListener w)
     \<and> demonProvider (snd (init env ac a)) \<noteq> None"
proof (cases "baseInit env (chainConfig a)")
  case (Inl e)
  then show ?thesis using assms by (simp add: init_def)
next
  case (Inr cc)
  show ?thesis
  proof (cases ac)
    case False
    then show ?thesis using Inr by (simp add: init_def Let_def emit_def)
  next
    case True
    let ?b = "(emit (EV_READY ''DEMON'')
        (a\<lparr>chainConfig := Some cc, demonProvider := Some (newBaseInjectedProvider cc),
           status := READY\<rparr>))\<lparr>rehydrated := True\<rparr>"
    from connect_keeps [of env ?b] True Inr show ?thesis
      by (cases "connect env ?b") (auto simp: init_def Let_def emit_def split: sum.splits)
  qed
qed

lemma disconnect_keeps:
  assumes "status a = CONNECTED \<longrightarrow>
     (\<exists>w. wallet' a = Some w \<and> disconnectListener w) \<and> demonProvider a \<noteq> None"
  shows "status (snd (disconnect env cl a)) = CONNECTED \<longrightarrow>
     (\<exists>w. wallet' (snd (disconnect env cl a)) = Some w \<and> disconnectListener w)
     \<and> demonProvider (snd (disconnect env cl a)) \<noteq> None"
  using assms
  by (auto simp: disconnect_def disconnect_try_def super_disconnect_def Let_def emit_def
      split: option.splits sum.splits prod.splits if_splits)

lemma switchChain_keeps:
  assumes "status a = CONNECTED \<longrightarrow>
     (\<exists>w. wallet' a = Some w \<and> disconnectListener w) \<and> demonProvider a \<noteq> None"
  shows "status (snd (switchChain env c i a)) = CONNECTED \<longrightarrow>
     (\<exists>w. wallet' (snd (switchChain env c i a)) = Some w \<and> disconnectListener w)
     \<and> demonProvider (snd (switchChain env c i a)) \<noteq> None"
  using assms
  by (auto simp: switchChain_def setAdapterSettings_def getChainConfig_def
      split: option.splits sum.splits)

lemma addChain_keeps:
  assumes "status a = CONNECTED \<longrightarrow>
     (\<exists>w. wallet' a = Some w \<and> disconnectListener w) \<and> demonProvider a \<noteq> None"
  shows "status (snd (addChain env c i a)) = CONNECTED \<longrightarrow>
     (\<exists>w. wallet' (snd (addChain env c i a)) = Some w \<and> disconnectListener w)
     \<and> demonProvider (snd (addChain env c i a)) \<noteq> None"
  using assms
  by (auto simp: addChain_def addChainConfig_def split: option.splits)

lemma walletFiresDisconnect_keeps:
  assumes "status a = CONNECTED \<longrightarrow>
     (\<exists>w. wallet' a = Some w \<and> disconnectListener w) \<and> demonProvider a \<noteq> None"
  shows "status (walletFiresDisconnect a) = CONNECTED \<longrightarrow>
     (\<exists>w. wallet' (walletFiresDisconnect a) = Some w \<and> disconnectListener w)
     \<and> demonProvider (walletFiresDisconnect a) \<noteq> None"
  using assms
  by (auto simp: walletFiresDisconnect_def onDisconnect_def Let_def emit_def
      split: option.splits)

lemma step_keeps:
  assumes "status a = CONNECTED \<longrightarrow>
     (\<exists>w. wallet' a = Some w \<and> disconnectListener w) \<and> demonProvider a \<noteq> None"
  shows "status (step c a) = CONNECTED \<longrightarrow>
     (\<exists>w. wallet' (step c a) = Some w \<and> disconnectListener w)
     \<and> demonProvider (step c a) \<noteq> None"
proof (cases c)
  case (Init env ac)
  then show ?thesis using init_keeps [OF assms] by simp
next
  case (Connect env)
  then show ?thesis using connect_keeps by simp
next
  case (Disconnect env cl)
  then show ?thesis using disconnect_keeps [OF assms] by simp
next
  case (AddChain env cc i)
  then show ?thesis using addChain_keeps [OF assms] by simp
next
  case (SwitchChain env cid i)
  then show ?thesis using switchChain_keeps [OF assms] by simp
next
  case WalletFiresDisconnect
  then show ?thesis using walletFiresDisconnect_keeps [OF assms] by simp
qed

lemma run_keeps:
  assumes "status a = CONNECTED \<longrightarrow>
     (\<exists>w. wallet' a = Some w \<and> disconnectListener w) \<and> demonProvider a \<noteq> None"
  shows "status (run cs a) = CONNECTED \<longrightarrow>
     (\<exists>w. wallet' (run cs a) = Some w \<and> disconnectListener w)
     \<and> demonProvider (run cs a) \<noteq> None"
  using assms
proof (induction cs arbitrary: a)
  case Nil
  then show ?case by simp
next
  case (Cons c cs)
  from Cons.IH [OF step_keeps [OF Cons.prems]] show ?case by simp
qed

lemma run_new_keeps:
  "status (run cs (newDemonAdapter cc)) = CONNECTED \<longrightarrow>
     (\<exists>w. wallet' (run cs (newDemonAdapter cc)) = Some w \<and> disconnectListener w)
     \<and> demonProvider (run cs (newDemonAdapter cc)) \<noteq> None"
  by (rule run_keeps) (simp add: newDemonAdapter_def)


lemma readyAdapter4_fields:
  "status readyAdapter4 = READY" "wallet' readyAdapter4 = None"
  "chainConfig readyAdapter4 = Some cfg4"
  "emitted readyAdapter4 = [EV_READY ''DEMON'']"
  by (simp_all add: readyAdapter4_def init_def env0_def newDemonAdapter_def emit_def Let_def)




lemma setupProvider_engine:
  "\<exists>eng. providerEngineProxy (setupProvider env w pr) = Some eng"
  by (simp add: setupProvider_def lookupNetwork_def Let_def)






















lemma switchChain_with_provider_rejects:
  assumes "demonProvider this = Some pr" "checkSwitchChainRequirements env c i = None"
  shows "switchChain env c i this =
     (Inl (UnsupportedOperationError (Some ''Chain switching is not supported by this adapter'')),
      this)"
  using assms by (simp add: switchChain_def switchChain_base_def)

lemma onDisconnect_twice:
  assumes "status this = CONNECTED" "wallet' this = Some w"
  shows "status (onDisconnect (onDisconnect this)) = NOT_READY
     \<and> emitted (onDisconnect (onDisconnect this)) = emitted this @ [EV_DISCONNECTED, EV_DISCONNECTED]"
  using assms by (simp add: onDisconnect_def Let_def emit_def)

section \<open>The connection lifecycle\<close>

text \<open>
  C1, as stated, fails: \<open>connectWithProvider\<close> sets the status to CONNECTED and emits the
  CONNECTED event while \<open>_wallet\<close> is still absent; \<open>connect\<close> stores the wallet only after
  \<open>connectWithProvider\<close> has returned. Shown on the first \<open>connect\<close> of an initialised
  adapter, whose \<open>try\<close> block is exactly that call followed by the two updates of \<open>_wallet\<close>.
\<close>

theorem connected_set_before_wallet_stored:
  "status (snd (connectWithProvider env0 connectedWallet connectingAdapter)) = CONNECTED
   \<and> wallet' (snd (connectWithProvider env0 connectedWallet connectingAdapter)) = None
   \<and> emitted (snd (connectWithProvider env0 connectedWallet connectingAdapter))
       = [EV_READY ''DEMON'', EV_CONNECTING ''DEMON'', EV_CONNECTED ''DEMON'' False]
   \<and> connect_try env0 readyAdapter
       = (Inr (provider (snd (connectWithProvider env0 connectedWallet connectingAdapter))),
          (snd (connectWithProvider env0 connectedWallet connectingAdapter))
            \<lparr>wallet' := Some (connectedWallet\<lparr>disconnectListener := True\<rparr>)\<rparr>)"
  by (simp add: connectWithProvider_def connectingAdapter_def connectedWallet_def
      readyAdapter_fields emit_def Let_def connect_try_def checkConnectionRequirements_def
      cluster_of_def cfg1_def newDemonWalletAdapter_def wallet_connect_def env0_def provider_def)

text \<open>
  C1, amended. In every state the adapter has between calls (after any sequence of
  \<open>init\<close>, \<open>connect\<close>, \<open>disconnect\<close>, \<open>addChain\<close>, \<open>switchChain\<close> and notifications of the
  wallet), a status of CONNECTED comes with a wallet reference and a provider reference
  that are both present; and \<open>connectWithProvider\<close> moves the status to CONNECTED only when
  the provider reference is present.
\<close>

theorem connected_between_calls_holds_references:
  "(status (run calls (newDemonAdapter cc)) = CONNECTED \<longrightarrow>
      wallet' (run calls (newDemonAdapter cc)) \<noteq> None
      \<and> demonProvider (run calls (newDemonAdapter cc)) \<noteq> None)
   \<and> (status this \<noteq> CONNECTED
        \<and> status (snd (connectWithProvider env injectedProvider this)) = CONNECTED \<longrightarrow>
      demonProvider this \<noteq> None)"
proof -
  have a: "status (run calls (newDemonAdapter cc)) = CONNECTED \<longrightarrow>
      wallet' (run calls (newDemonAdapter cc)) \<noteq> None
      \<and> demonProvider (run calls (newDemonAdapter cc)) \<noteq> None"
    using run_new_keeps [of calls cc] by auto
  have b: "status this \<noteq> CONNECTED
        \<and> status (snd (connectWithProvider env injectedProvider this)) = CONNECTED \<longrightarrow>
      demonProvider this \<noteq> None"
    by (cases "demonProvider this") (auto simp: connectWithProvider_def)
  from a b show ?thesis by blast
qed

theorem connected_between_calls_holds_references_witness:
  "status (run [Init env0 False, Connect env0] (newDemonAdapter (Some cfg1))) = CONNECTED
   \<and> wallet' (run [Init env0 False, Connect env0] (newDemonAdapter (Some cfg1))) \<noteq> None
   \<and> demonProvider (run [Init env0 False, Connect env0] (newDemonAdapter (Some cfg1))) \<noteq> None
   \<and> status connectingAdapter \<noteq> CONNECTED
   \<and> status (snd (connectWithProvider env0 connectedWallet connectingAdapter)) = CONNECTED
   \<and> demonProvider connectingAdapter \<noteq> None"
proof -
  have s: "status (run [Init env0 False, Connect env0] (newDemonAdapter (Some cfg1))) = CONNECTED"
    using connectedAdapter_fields(1) by (simp add: connectedAdapter_def)
  have c: "status connectingAdapter \<noteq> CONNECTED"
    by (simp add: connectingAdapter_def emit_def)
  have d: "status (snd (connectWithProvider env0 connectedWallet connectingAdapter)) = CONNECTED"
    by (simp add: connectWithProvider_def connectingAdapter_def readyAdapter_fields emit_def
        Let_def)
  note t = connected_between_calls_holds_references [of "[Init env0 False, Connect env0]" "Some cfg1" connectingAdapter env0
      connectedWallet]
  from t s c d show ?thesis by blast
qed

text \<open>
  C2, as stated, fails: the requirement check runs inside the \<open>try\<close> block of \<open>connect\<close>,
  whose \<open>catch\<close> sets the status to READY for every error; a second \<open>connect\<close> on a
  CONNECTED adapter is rejected and leaves the status READY, not CONNECTED.
\<close>

theorem second_connect_resets_status:
  "status connectedAdapter = CONNECTED
   \<and> fst (connect env0 connectedAdapter) = Inl PreconditionError
   \<and> status (snd (connect env0 connectedAdapter)) \<noteq> CONNECTED"
  by (simp add: connectedAdapter_fields connect_def connect_try_def
      checkConnectionRequirements_def emit_def)

text \<open>
  C2, amended. After a successful \<open>connect\<close>, a second \<open>connect\<close> is rejected with the
  precondition error; the wallet and provider references of the first call are unchanged,
  an ERRORED event carrying the error is emitted, and the status afterwards is READY.
\<close>

theorem second_connect_rejects_and_rolls_back:
  assumes "connect env this = (Inr p, this1)"
  shows "fst (connect env' this1) = Inl PreconditionError
     \<and> status (snd (connect env' this1)) = READY
     \<and> wallet' (snd (connect env' this1)) = wallet' this1
     \<and> demonProvider (snd (connect env' this1)) = demonProvider this1
     \<and> emitted (snd (connect env' this1)) = emitted this1 @ [EV_ERRORED PreconditionError]"
proof -
  from connect_Inr [OF assms] have "status this1 = CONNECTED" by simp
  then show ?thesis
    by (simp add: connect_def connect_try_def checkConnectionRequirements_def emit_def)
qed

theorem second_connect_rejects_and_rolls_back_witness:
  "connect env0 readyAdapter = (Inr (provider connectedAdapter), connectedAdapter)
   \<and> fst (connect env0 connectedAdapter) = Inl PreconditionError
   \<and> status (snd (connect env0 connectedAdapter)) = READY
   \<and> wallet' (snd (connect env0 connectedAdapter)) = wallet' connectedAdapter
   \<and> demonProvider (snd (connect env0 connectedAdapter)) = demonProvider connectedAdapter"
proof -
  have h: "connect env0 readyAdapter = (Inr (provider connectedAdapter), connectedAdapter)"
    unfolding connectedAdapter_eq
    by (simp add: readyAdapter_fields connect_def connect_try_def connectWithProvider_def
      checkConnectionRequirements_def cluster_of_def newDemonWalletAdapter_def wallet_connect_def
      emit_def Let_def env0_def cfg1_def provider_def)
  from second_connect_rejects_and_rolls_back [OF h, of env0] h show ?thesis by simp
qed

text \<open>
  C4. When the adapter is CONNECTED (in any state it has between calls) and the wallet
  fires its "disconnect" notification, the status becomes READY and exactly one
  DISCONNECTED event is emitted; the handler has unregistered itself, so a second firing
  changes nothing.
\<close>

theorem external_disconnect_emits_once:
  assumes "status (run calls (newDemonAdapter cc)) = CONNECTED"
  shows "status (walletFiresDisconnect (run calls (newDemonAdapter cc))) = READY
     \<and> emitted (walletFiresDisconnect (run calls (newDemonAdapter cc)))
         = emitted (run calls (newDemonAdapter cc)) @ [EV_DISCONNECTED]
     \<and> walletFiresDisconnect (walletFiresDisconnect (run calls (newDemonAdapter cc)))
         = walletFiresDisconnect (run calls (newDemonAdapter cc))"
proof -
  let ?a = "run calls (newDemonAdapter cc)"
  from run_new_keeps [of calls cc] assms obtain w
    where w: "wallet' ?a = Some w" "disconnectListener w" by blast
  have f: "walletFiresDisconnect ?a = onDisconnect ?a"
    using w by (simp add: walletFiresDisconnect_def)
  have s: "status (onDisconnect ?a) = READY"
    using w assms by (simp add: onDisconnect_def Let_def emit_def)
  have e: "emitted (onDisconnect ?a) = emitted ?a @ [EV_DISCONNECTED]"
    using w by (simp add: onDisconnect_def Let_def emit_def)
  have l: "wallet' (onDisconnect ?a) = Some (w\<lparr>disconnectListener := False\<rparr>)"
    using w by (simp add: onDisconnect_def Let_def emit_def)
  have n: "walletFiresDisconnect (onDisconnect ?a) = onDisconnect ?a"
    using l by (simp add: walletFiresDisconnect_def)
  from f s e n show ?thesis by simp
qed

theorem external_disconnect_emits_once_witness:
  "status (run [Init env0 False, Connect env0] (newDemonAdapter (Some cfg1))) = CONNECTED
   \<and> status (walletFiresDisconnect (run [Init env0 False, Connect env0] (newDemonAdapter (Some cfg1)))) = READY
   \<and> emitted (walletFiresDisconnect (run [Init env0 False, Connect env0] (newDemonAdapter (Some cfg1))))
       = [EV_READY ''DEMON'', EV_CONNECTING ''DEMON'', EV_CONNECTED ''DEMON'' False, EV_DISCONNECTED]
   \<and> emitted (walletFiresDisconnect (walletFiresDisconnect
         (run [Init env0 False, Connect env0] (newDemonAdapter (Some cfg1)))))
       = [EV_READY ''DEMON'', EV_CONNECTING ''DEMON'', EV_CONNECTED ''DEMON'' False, EV_DISCONNECTED]"
proof -
  have s: "status (run [Init env0 False, Connect env0] (newDemonAdapter (Some cfg1))) = CONNECTED"
    using connectedAdapter_fields(1) by (simp add: connectedAdapter_def)
  have e: "emitted (run [Init env0 False, Connect env0] (newDemonAdapter (Some cfg1)))
      = [EV_READY ''DEMON'', EV_CONNECTING ''DEMON'', EV_CONNECTED ''DEMON'' False]"
    using connectedAdapter_fields(4) by (simp add: connectedAdapter_def)
  from external_disconnect_emits_once [OF s] s e show ?thesis by simp
qed

text \<open>
  C5, as stated, fails: for a chain id outside "0x1", "0x2", "0x3" the error thrown is
  the one built by \<open>WalletLoginError.connectionError\<close>, the same class as for a failed
  wallet session, and not a separate unsupported-chain class.
\<close>

theorem unsupported_chain_is_connection_error:
  "status readyAdapter4 = READY
   \<and> map_option chainId (chainConfig readyAdapter4) = Some ''0x4''
   \<and> fst (connect env0 readyAdapter4) =
       Inl (ConnectionError (Some (''Invalid chainId, demon doesn'' @ [CHR 0x27] @
              ''t support custom solana networks'')))
   \<and> fst (connect env0 readyAdapter4) \<noteq> Inl UnsupportedChainError"
  by (simp add: readyAdapter4_fields connect_def connect_try_def checkConnectionRequirements_def
      cluster_of_def cfg4_def emit_def Let_def)

text \<open>
  C5, amended. On a READY adapter whose chain id is outside "0x1", "0x2", "0x3" (or whose
  chain configuration is absent), \<open>connect\<close> is rejected with the connection error
  "Invalid chainId, demon doesn't support custom solana networks" and the status is READY
  afterwards; "0x1" resolves to mainnet-beta, "0x2" to devnet and "0x3" to testnet, and a
  successful \<open>connect\<close> holds a wallet created for the resolved network.
\<close>

theorem connect_resolves_cluster:
  "(status this = READY
      \<and> map_option chainId (chainConfig this) \<notin> {Some ''0x1'', Some ''0x2'', Some ''0x3''} \<longrightarrow>
      fst (connect env this) =
        Inl (ConnectionError (Some (''Invalid chainId, demon doesn'' @ [CHR 0x27] @
               ''t support custom solana networks'')))
      \<and> status (snd (connect env this)) = READY)
   \<and> cluster_of (Some (cc\<lparr>chainId := ''0x1''\<rparr>)) = Inr ''mainnet-beta''
   \<and> cluster_of (Some (cc\<lparr>chainId := ''0x2''\<rparr>)) = Inr ''devnet''
   \<and> cluster_of (Some (cc\<lparr>chainId := ''0x3''\<rparr>)) = Inr ''testnet''
   \<and> (connect env this = (Inr p, this1) \<longrightarrow>
        map_option (\<lambda>w. Inr (network w)) (wallet' this1) = Some (cluster_of (chainConfig this)))"
proof -
  have a: "status this = READY
      \<and> map_option chainId (chainConfig this) \<notin> {Some ''0x1'', Some ''0x2'', Some ''0x3''} \<longrightarrow>
      fst (connect env this) =
        Inl (ConnectionError (Some (''Invalid chainId, demon doesn'' @ [CHR 0x27] @
               ''t support custom solana networks'')))
      \<and> status (snd (connect env this)) = READY"
  proof (intro impI)
    assume h: "status this = READY
      \<and> map_option chainId (chainConfig this) \<notin> {Some ''0x1'', Some ''0x2'', Some ''0x3''}"
    then have c: "cluster_of (chainConfig this) =
        Inl (ConnectionError (Some (''Invalid chainId, demon doesn'' @ [CHR 0x27] @
               ''t support custom solana networks'')))"
      unfolding cluster_of_def by simp
    have k: "checkConnectionRequirements this = None"
      using h by (simp add: checkConnectionRequirements_def)
    have t: "connect_try env this =
        (Inl (ConnectionError (Some (''Invalid chainId, demon doesn'' @ [CHR 0x27] @
               ''t support custom solana networks''))),
         emit (EV_CONNECTING ''DEMON'') (this\<lparr>status := CONNECTING\<rparr>))"
      unfolding connect_try_def using c k by (simp add: Let_def emit_def)
    show "fst (connect env this) =
        Inl (ConnectionError (Some (''Invalid chainId, demon doesn'' @ [CHR 0x27] @
               ''t support custom solana networks'')))
      \<and> status (snd (connect env this)) = READY"
      unfolding connect_def t by (simp add: emit_def)
  qed
  have b: "cluster_of (Some (cc\<lparr>chainId := ''0x1''\<rparr>)) = Inr ''mainnet-beta''"
    "cluster_of (Some (cc\<lparr>chainId := ''0x2''\<rparr>)) = Inr ''devnet''"
    "cluster_of (Some (cc\<lparr>chainId := ''0x3''\<rparr>)) = Inr ''testnet''"
    by (simp_all add: cluster_of_def)
  have c: "connect env this = (Inr p, this1) \<longrightarrow>
        map_option (\<lambda>w. Inr (network w)) (wallet' this1) = Some (cluster_of (chainConfig this))"
    by (auto simp: connect_def connect_try_def connectWithProvider_def Let_def emit_def
        newDemonWalletAdapter_def wallet_connect_def
        split: option.splits sum.splits if_splits prod.splits)
  from a b c show ?thesis by blast
qed

theorem connect_resolves_cluster_witness:
  "status readyAdapter4 = READY
   \<and> map_option chainId (chainConfig readyAdapter4) \<notin> {Some ''0x1'', Some ''0x2'', Some ''0x3''}
   \<and> status (snd (connect env0 readyAdapter4)) = READY
   \<and> connect env0 readyAdapter = (Inr (provider connectedAdapter), connectedAdapter)
   \<and> map_option (\<lambda>w. Inr (network w)) (wallet' connectedAdapter)
       = Some (cluster_of (chainConfig readyAdapter))
   \<and> cluster_of (chainConfig readyAdapter) = Inr ''mainnet-beta''"
proof -
  have h: "connect env0 readyAdapter = (Inr (provider connectedAdapter), connectedAdapter)"
    unfolding connectedAdapter_eq
    by (simp add: readyAdapter_fields connect_def connect_try_def connectWithProvider_def
      checkConnectionRequirements_def cluster_of_def newDemonWalletAdapter_def wallet_connect_def
      emit_def Let_def env0_def cfg1_def provider_def)
  have r: "status readyAdapter4 = READY"
    "map_option chainId (chainConfig readyAdapter4) \<notin> {Some ''0x1'', Some ''0x2'', Some ''0x3''}"
    by (simp_all add: readyAdapter4_fields cfg4_def)
  have m: "cluster_of (chainConfig readyAdapter) = Inr ''mainnet-beta''"
    by (simp add: readyAdapter_fields cluster_of_def cfg1_def)
  note t = connect_resolves_cluster [where this = readyAdapter4 and env = env0 and cc = cfg1]
  note u = connect_resolves_cluster [where this = readyAdapter and env = env0 and cc = cfg1
      and p = "provider connectedAdapter" and ?this1.0 = connectedAdapter]
  from t r have 1: "status (snd (connect env0 readyAdapter4)) = READY" by blast
  from u h have 2: "map_option (\<lambda>w. Inr (network w)) (wallet' connectedAdapter)
       = Some (cluster_of (chainConfig readyAdapter))" by blast
  from r 1 h 2 m show ?thesis by blast
qed

text \<open>
  C6, as stated, fails: \<open>super.disconnectSession()\<close> is awaited before the \<open>try\<close> block of
  \<open>disconnect\<close>, so an error it raises rejects the promise and no ERRORED event is
  emitted.
\<close>

theorem disconnectSession_error_propagates:
  "fst (disconnect envNoSession False readyAdapter)
     = Inl (DisconnectionError (Some ''Not connected with wallet''))
   \<and> emitted (snd (disconnect envNoSession False readyAdapter)) = emitted readyAdapter"
  by (simp add: disconnect_def envNoSession_def env0_def)

text \<open>
  C6, amended. An error of \<open>super.disconnectSession()\<close>, awaited before the \<open>try\<close> block,
  rejects the promise and leaves the adapter as it was. Once that step has succeeded
  \<open>disconnect\<close> always resolves, and an error raised inside the \<open>try\<close> block surfaces only
  as one emitted ERRORED event carrying a DisconnectionError made from that error's
  message: when the wallet's \<open>disconnect()\<close> fails, that event is the only change to the
  adapter; otherwise the base class's \<open>disconnect()\<close> runs, DISCONNECTED is emitted, and
  the ERRORED event follows it exactly when the base class's call fails.
\<close>

theorem disconnect_emits_errors_of_try_block:
  "(disconnectSession env = Some e \<longrightarrow> disconnect env cleanup this = (Inl e, this))
   \<and> (disconnectSession env = None \<longrightarrow> fst (disconnect env cleanup this) = Inr ())
   \<and> (disconnectSession env = None \<and> wallet' this = Some w \<and> walletDisconnect env = Some e \<longrightarrow>
        disconnect env cleanup this =
          (Inr (), emit (EV_ERRORED (DisconnectionError (message (web3AuthMessage env) e))) this))
   \<and> (disconnectSession env = None \<and> (wallet' this = None \<or> walletDisconnect env = None) \<longrightarrow>
        emitted (snd (disconnect env cleanup this)) =
          emitted this @ EV_DISCONNECTED #
            (case superDisconnect env of
               None \<Rightarrow> []
             | Some x \<Rightarrow> [EV_ERRORED (DisconnectionError (message (web3AuthMessage env) x))])
        \<and> status (snd (disconnect env cleanup this)) = (if cleanup then NOT_READY else READY))"
  by (auto simp: disconnect_def disconnect_try_def super_disconnect_def emit_def Let_def
      split: option.splits sum.splits prod.splits)

theorem disconnect_emits_errors_of_try_block_witness:
  "disconnect envNoSession False readyAdapter
       = (Inl (DisconnectionError (Some ''Not connected with wallet'')), readyAdapter)
   \<and> fst (disconnect envDetachFails False connectedAdapter) = Inr ()
   \<and> emitted (snd (disconnect envDetachFails False connectedAdapter))
       = emitted connectedAdapter @ [EV_ERRORED (DisconnectionError (Some ''wallet is locked''))]
   \<and> status (snd (disconnect envDetachFails False connectedAdapter)) = CONNECTED
   \<and> fst (disconnect env0 False connectedAdapter) = Inr ()
   \<and> emitted (snd (disconnect env0 False connectedAdapter))
       = emitted connectedAdapter @ [EV_DISCONNECTED]
   \<and> status (snd (disconnect env0 False connectedAdapter)) = READY"
proof -
  let ?w = "\<lparr>network = ''mainnet-beta'', connected = True,
      publicKey = Some ''pubkey'', disconnectListener = True\<rparr>"
  have s: "disconnectSession envNoSession
      = Some (DisconnectionError (Some ''Not connected with wallet''))"
    by (simp add: envNoSession_def env0_def)
  have d: "disconnectSession envDetachFails = None" "wallet' connectedAdapter = Some ?w"
    "walletDisconnect envDetachFails = Some (PlainError (Some ''wallet is locked''))"
    "web3AuthMessage envDetachFails = libraryText"
    by (simp_all add: envDetachFails_def env0_def connectedAdapter_fields)
  have z: "disconnectSession env0 = None" "walletDisconnect env0 = None"
    "superDisconnect env0 = None"
    by (simp_all add: env0_def)
  note t1 = disconnect_emits_errors_of_try_block [where env = envNoSession and cleanup = False and this = readyAdapter
      and e = "DisconnectionError (Some ''Not connected with wallet'')"]
  note t2 = disconnect_emits_errors_of_try_block [where env = envDetachFails and cleanup = False and this = connectedAdapter
      and e = "PlainError (Some ''wallet is locked'')" and w = ?w]
  note t4 = disconnect_emits_errors_of_try_block [where env = env0 and cleanup = False and this = connectedAdapter]
  from t1 s have 1: "disconnect envNoSession False readyAdapter
       = (Inl (DisconnectionError (Some ''Not connected with wallet'')), readyAdapter)"
    by blast
  from t2 d have 2: "disconnect envDetachFails False connectedAdapter =
      (Inr (), emit (EV_ERRORED (DisconnectionError (Some ''wallet is locked'')))
         connectedAdapter)"
    by simp
  from t4 z have 4: "fst (disconnect env0 False connectedAdapter) = Inr ()
     \<and> emitted (snd (disconnect env0 False connectedAdapter))
       = emitted connectedAdapter @ [EV_DISCONNECTED]
     \<and> status (snd (disconnect env0 False connectedAdapter)) = READY"
    by simp
  from 1 2 4 show ?thesis by (simp add: emit_def connectedAdapter_fields)
qed

section \<open>The config responder\<close>




end
